theory Spec2Isabelle
  imports Complex_Main
begin

section \<open>Python values as the normalizers see them\<close>

text \<open>
  A Python float is either a finite number (kept by its real value) or one of the three
  special values.  A decoded JSON document is what \<^verbatim>\<open>json.loads\<close> builds: a dict
  is an association list in insertion order (its keys are strings and pairwise distinct,
  see \<open>wf_json\<close>).  Strings are lists of code points below 256.
\<close>

datatype pyfloat = Finite real | NaN | PosInf | NegInf

datatype json =
    JNull
  | JBool bool
  | JInt int
  | JFloat pyfloat
  | JStr string
  | JList "json list"
  | JDict "(string \<times> json) list"

datatype pyerr = AttributeError | TypeError | ValueError | IndexError

definition ebind :: "pyerr + 'a \<Rightarrow> ('a \<Rightarrow> pyerr + 'b) \<Rightarrow> pyerr + 'b" where
  "ebind m f = (case m of Inl e \<Rightarrow> Inl e | Inr x \<Rightarrow> f x)"

text \<open>Truth value of an object, as \<^verbatim>\<open>or\<close>, \<^verbatim>\<open>not\<close> and \<^verbatim>\<open>if\<close> test it.\<close>

fun truthy :: "json \<Rightarrow> bool" where
  "truthy JNull = False"
| "truthy (JBool b) = b"
| "truthy (JInt i) = (i \<noteq> 0)"
| "truthy (JFloat f) = (f \<noteq> Finite 0)"
| "truthy (JStr s) = (s \<noteq> [])"
| "truthy (JList xs) = (xs \<noteq> [])"
| "truthy (JDict kvs) = (kvs \<noteq> [])"

definition jor :: "json \<Rightarrow> json \<Rightarrow> json" where
  "jor a b = (if truthy a then a else b)"

text \<open>\<^verbatim>\<open>obj.get(key, default)\<close>: only a dict has the attribute.\<close>

fun jget_default :: "json \<Rightarrow> string \<Rightarrow> json \<Rightarrow> pyerr + json" where
  "jget_default (JDict kvs) k dflt =
     Inr (case map_of kvs k of None \<Rightarrow> dflt | Some v \<Rightarrow> v)"
| "jget_default _ k dflt = Inl AttributeError"

definition jget :: "json \<Rightarrow> string \<Rightarrow> pyerr + json" where
  "jget obj k = jget_default obj k JNull"

text \<open>\<^verbatim>\<open>obj.get(k1) or obj.get(k2) or ...\<close>, evaluated left to right.\<close>

fun get_or :: "json \<Rightarrow> string list \<Rightarrow> pyerr + json" where
  "get_or obj [] = Inr JNull"
| "get_or obj [k] = jget obj k"
| "get_or obj (k # ks) =
     ebind (jget obj k) (\<lambda>v. if truthy v then Inr v else get_or obj ks)"

text \<open>\<^verbatim>\<open>obj.items()\<close>.\<close>

fun items :: "json \<Rightarrow> pyerr + (string \<times> json) list" where
  "items (JDict kvs) = Inr kvs"
| "items _ = Inl AttributeError"


text \<open>
  A loop that appends to \<^verbatim>\<open>out\<close> and is left by the first exception: the rows of
  all iterations in order, or the first error.
\<close>

fun collect :: "('a \<Rightarrow> pyerr + 'b list) \<Rightarrow> 'a list \<Rightarrow> pyerr + 'b list" where
  "collect f [] = Inr []"
| "collect f (x # xs) =
     (case f x of
        Inl e \<Rightarrow> Inl e
      | Inr ys \<Rightarrow> (case collect f xs of Inl e \<Rightarrow> Inl e | Inr zs \<Rightarrow> Inr (ys @ zs)))"

section \<open>Dates\<close>

record date =
  year :: int
  month :: int
  day :: int

definition is_space :: "char \<Rightarrow> bool" where
  "is_space c = (of_char c \<in> {9, 10, 11, 12, 13, 28, 29, 30, 31, 32, 133, 160 :: nat})"

definition digit_of :: "char \<Rightarrow> int option" where
  "digit_of c =
     (let n = (of_char c :: nat) in if 48 \<le> n \<and> n \<le> 57 then Some (int n - 48) else None)"

definition is_leap :: "int \<Rightarrow> bool" where
  "is_leap y = (y mod 4 = 0 \<and> (y mod 100 \<noteq> 0 \<or> y mod 400 = 0))"

definition days_in_month :: "int \<Rightarrow> int \<Rightarrow> int" where
  "days_in_month y m =
     (if m = 2 then (if is_leap y then 29 else 28)
      else if m = 4 \<or> m = 6 \<or> m = 9 \<or> m = 11 then 30 else 31)"

text \<open>The constructor of a date refuses what is not a day of the calendar.\<close>

definition mk_date :: "int \<Rightarrow> int \<Rightarrow> int \<Rightarrow> date option" where
  "mk_date y m d =
     (if 1 \<le> y \<and> y \<le> 9999 \<and> 1 \<le> m \<and> m \<le> 12 \<and> 1 \<le> d \<and> d \<le> days_in_month y m
      then Some \<lparr>year = y, month = m, day = d\<rparr> else None)"

text \<open>
  The directives of \<^verbatim>\<open>strptime\<close>: \<^verbatim>\<open>%m\<close> reads \<^verbatim>\<open>1[0-2]|0[1-9]|[1-9]\<close>,
  \<^verbatim>\<open>%d\<close> reads \<^verbatim>\<open>3[0-1]|[1-2]\d|0[1-9]|[1-9]| [1-9]\<close>, and the whole text has to be
  consumed.
\<close>

fun month_text :: "string \<Rightarrow> int option" where
  "month_text [a] = (case digit_of a of Some x \<Rightarrow> if 1 \<le> x then Some x else None | None \<Rightarrow> None)"
| "month_text [a, b] =
     (case (digit_of a, digit_of b) of
        (Some x, Some y) \<Rightarrow>
          if x = 1 \<and> y \<le> 2 then Some (10 + y)
          else if x = 0 \<and> 1 \<le> y then Some y
          else None
      | _ \<Rightarrow> None)"
| "month_text _ = None"

fun day_text :: "string \<Rightarrow> int option" where
  "day_text [a] = (case digit_of a of Some x \<Rightarrow> if 1 \<le> x then Some x else None | None \<Rightarrow> None)"
| "day_text [a, b] =
     (case digit_of b of
        None \<Rightarrow> None
      | Some y \<Rightarrow>
          (case digit_of a of
             Some x \<Rightarrow>
               if x = 3 \<and> y \<le> 1 then Some (30 + y)
               else if x = 1 \<or> x = 2 then Some (10 * x + y)
               else if x = 0 \<and> 1 \<le> y then Some y
               else None
           | None \<Rightarrow> if a = CHR '' '' \<and> 1 \<le> y then Some y else None))"
| "day_text _ = None"

text \<open>\<^verbatim>\<open>datetime.strptime(s, "%Y-%m-%d")\<close>, \<open>None\<close> where it raises.\<close>

fun strptime_ymd :: "string \<Rightarrow> date option" where
  "strptime_ymd (a # b # c # d # sep # rest) =
     (case (digit_of a, digit_of b, digit_of c, digit_of d) of
        (Some a', Some b', Some c', Some d') \<Rightarrow>
          if sep \<noteq> CHR ''-'' then None
          else
            (case month_text (takeWhile (\<lambda>x. x \<noteq> CHR ''-'') rest) of
               None \<Rightarrow> None
             | Some m \<Rightarrow>
                 (case dropWhile (\<lambda>x. x \<noteq> CHR ''-'') rest of
                    [] \<Rightarrow> None
                  | _ # dtxt \<Rightarrow>
                      (case day_text dtxt of
                         None \<Rightarrow> None
                       | Some dd \<Rightarrow> mk_date (1000 * a' + 100 * b' + 10 * c' + d') m dd)))
      | _ \<Rightarrow> None)"
| "strptime_ymd _ = None"

text \<open>\<^verbatim>\<open>s.split()[0]\<close>: the first run of non-blank characters, if there is one.\<close>

definition first_token :: "string \<Rightarrow> string option" where
  "first_token s =
     (let t = dropWhile is_space s
      in if t = [] then None else Some (takeWhile (\<lambda>c. \<not> is_space c) t))"

text \<open>
  The date of a statement key: the strict pattern on the first ten characters, then
  \<^verbatim>\<open>datetime.fromisoformat\<close> on the first token.  The second parser belongs to the
  Python library and is a parameter here (\<open>fiso\<close>, the date it returns, \<open>None\<close>
  where it raises); \<open>None\<close> is the \<^verbatim>\<open>continue\<close> of the loop.
\<close>

definition parse_date :: "(string \<Rightarrow> date option) \<Rightarrow> string \<Rightarrow> date option" where
  "parse_date fiso dt_str =
     (case strptime_ymd (take 10 dt_str) of
        Some d \<Rightarrow> Some d
      | None \<Rightarrow> (case first_token dt_str of None \<Rightarrow> None | Some w \<Rightarrow> fiso w))"

definition valid_date :: "date \<Rightarrow> bool" where
  "valid_date d =
     (1 \<le> year d \<and> year d \<le> 9999 \<and> 1 \<le> month d \<and> month d \<le> 12 \<and>
      1 \<le> day d \<and> day d \<le> days_in_month (year d) (month d))"

text \<open>What the library guarantees of the second parser: it returns calendar dates.\<close>

definition fiso_ok :: "(string \<Rightarrow> date option) \<Rightarrow> bool" where
  "fiso_ok fiso = (\<forall>s d. fiso s = Some d \<longrightarrow> valid_date d)"

section \<open>Financilas.py: the statement normalizer\<close>

definition quarter_from_date :: "date \<Rightarrow> int" where
  "quarter_from_date d = (month d - 1) div 3 + 1"

record lineitem =
  li_symbol :: json
  li_yf_name :: json
  li_stype :: string
  li_metric :: string
  li_stockcurrency :: json
  li_financialcurrency :: json
  li_cal_year :: int
  li_period :: int
  li_val :: json
  li_date :: date

definition folder_map :: "(string \<times> string) list" where
  "folder_map = [(''cashflow'', ''CF''), (''incomestatement'', ''IS''), (''balancesheet'', ''BS'')]"

fun is_dict_or_list :: "json \<Rightarrow> bool" where
  "is_dict_or_list (JDict _) = True"
| "is_dict_or_list (JList _) = True"
| "is_dict_or_list _ = False"

fun nan_inf_to_none :: "json \<Rightarrow> json" where
  "nan_inf_to_none (JFloat NaN) = JNull"
| "nan_inf_to_none (JFloat PosInf) = JNull"
| "nan_inf_to_none (JFloat NegInf) = JNull"
| "nan_inf_to_none v = v"

text \<open>The innermost loop, over \<^verbatim>\<open>(metrics or {}).items()\<close>.\<close>

fun metric_rows ::
  "json \<Rightarrow> json \<Rightarrow> string \<Rightarrow> json \<Rightarrow> json \<Rightarrow> date \<Rightarrow> int \<Rightarrow> (string \<times> json) list \<Rightarrow> lineitem list"
where
  "metric_rows symbol yfn stype sc fc d p [] = []"
| "metric_rows symbol yfn stype sc fc d p ((metric, v) # rest) =
     (if metric = [] then metric_rows symbol yfn stype sc fc d p rest
      else if is_dict_or_list v then metric_rows symbol yfn stype sc fc d p rest
      else
        \<lparr>li_symbol = symbol, li_yf_name = yfn, li_stype = stype, li_metric = metric,
         li_stockcurrency = sc, li_financialcurrency = fc, li_cal_year = year d,
         li_period = p, li_val = nan_inf_to_none v, li_date = d\<rparr>
        # metric_rows symbol yfn stype sc fc d p rest)"

definition period_of :: "string \<Rightarrow> date \<Rightarrow> int" where
  "period_of freq d = (if freq = ''yearly'' then 4 else quarter_from_date d)"

text \<open>One pass of the loop over \<^verbatim>\<open>freq_block.items()\<close>.\<close>

definition date_group ::
  "(string \<Rightarrow> date option) \<Rightarrow> json \<Rightarrow> json \<Rightarrow> string \<Rightarrow> json \<Rightarrow> json \<Rightarrow> string \<Rightarrow>
   string \<times> json \<Rightarrow> pyerr + lineitem list"
where
  "date_group fiso symbol yfn stype sc fc freq entry =
     (case parse_date fiso (fst entry) of
        None \<Rightarrow> Inr []
      | Some d \<Rightarrow>
          ebind (items (jor (snd entry) (JDict [])))
            (\<lambda>kvs. Inr (metric_rows symbol yfn stype sc fc d (period_of freq d) kvs)))"

text \<open>\<^verbatim>\<open>block.get(freq) or {}\<close> and its items.\<close>

definition freq_entries :: "json \<Rightarrow> string \<Rightarrow> pyerr + (string \<times> json) list" where
  "freq_entries block freq =
     ebind (jget block freq) (\<lambda>fb. items (jor fb (JDict [])))"

definition freq_rows ::
  "(string \<Rightarrow> date option) \<Rightarrow> json \<Rightarrow> json \<Rightarrow> string \<Rightarrow> json \<Rightarrow> json \<Rightarrow> json \<Rightarrow>
   string \<Rightarrow> pyerr + lineitem list"
where
  "freq_rows fiso symbol yfn stype sc fc block freq =
     ebind (freq_entries block freq)
       (collect (date_group fiso symbol yfn stype sc fc freq))"

text \<open>\<^verbatim>\<open>(info_json or {}).get(folder) or {}\<close>.\<close>

definition folder_block :: "json \<Rightarrow> string \<Rightarrow> pyerr + json" where
  "folder_block info_json folder =
     ebind (jget (jor info_json (JDict [])) folder) (\<lambda>b. Inr (jor b (JDict [])))"

definition folder_rows ::
  "(string \<Rightarrow> date option) \<Rightarrow> json \<Rightarrow> json \<Rightarrow> json \<Rightarrow> json \<Rightarrow> json \<Rightarrow>
   string \<times> string \<Rightarrow> pyerr + lineitem list"
where
  "folder_rows fiso symbol yfn sc fc info_json fs =
     ebind (folder_block info_json (fst fs))
       (\<lambda>block. collect (freq_rows fiso symbol yfn (snd fs) sc fc block) [''yearly'', ''quarterly''])"

definition normalize_financials ::
  "(string \<Rightarrow> date option) \<Rightarrow> json \<Rightarrow> json \<Rightarrow> pyerr + lineitem list"
where
  "normalize_financials fiso symbol info_json =
     ebind (jget_default (jor info_json (JDict [])) ''info'' (JDict [])) (\<lambda>i.
       let info = jor i (JDict []) in
       ebind (jget info ''currency'') (\<lambda>sc.
       ebind (get_or info [''financialCurrency'', ''financialcurrency'']) (\<lambda>fc.
       ebind (get_or info [''longName'', ''shortName'', ''displayName'']) (\<lambda>yfn.
         collect (folder_rows fiso symbol yfn sc fc info_json) folder_map))))"






section \<open>Financilas.py: the schema reconciler\<close>

text \<open>
  The statements that \<open>ensure_financials_table\<close> sends, and what a call of
  \<^verbatim>\<open>cur.execute\<close> can raise: a \<^verbatim>\<open>mysql.connector.Error\<close> with its \<^verbatim>\<open>errno\<close>,
  or an exception of another class.
\<close>

datatype stmt =
    CreateTable
  | DropPrimaryKey
  | ModifyColumn string string
  | AddPrimaryKey "string list"

datatype exn = MySQLError int | OtherError string

text \<open>
  The server is a function from the statements executed so far and the next statement to
  the exception that statement raises, if any.  \<open>execute\<close> records the statement.
\<close>

type_synonym server = "stmt list \<Rightarrow> stmt \<Rightarrow> exn option"

definition execute :: "server \<Rightarrow> stmt list \<Rightarrow> stmt \<Rightarrow> exn option \<times> stmt list" where
  "execute db sent q = (db sent q, sent @ [q])"

text \<open>\<^verbatim>\<open>try: cur.execute(q)  except mysql.connector.Error: pass\<close>\<close>

definition execute_ignoring :: "server \<Rightarrow> stmt list \<Rightarrow> stmt \<Rightarrow> exn option \<times> stmt list" where
  "execute_ignoring db sent q =
     (case execute db sent q of
        (Some (MySQLError n), sent') \<Rightarrow> (None, sent')
      | r \<Rightarrow> r)"

definition add_key :: stmt where
  "add_key = AddPrimaryKey [''stock'', ''statement_type'', ''metric'', ''date'']"

text \<open>The result is the exception that leaves the function, if any, and the statements sent.\<close>

definition ensure_financials_table :: "server \<Rightarrow> stmt list \<Rightarrow> exn option \<times> stmt list" where
  "ensure_financials_table db sent =
     (case execute db sent CreateTable of
        (None, sent1) \<Rightarrow> (None, sent1)
      | (Some (OtherError x), sent1) \<Rightarrow> (Some (OtherError x), sent1)
      | (Some (MySQLError n), sent1) \<Rightarrow>
          if n \<noteq> 1170 then (Some (MySQLError n), sent1)
          else
            (case execute_ignoring db sent1 DropPrimaryKey of
               (Some e, sent2) \<Rightarrow> (Some e, sent2)
             | (None, sent2) \<Rightarrow>
            (case execute_ignoring db sent2 (ModifyColumn ''metric'' ''VARCHAR(191) NOT NULL'') of
               (Some e, sent3) \<Rightarrow> (Some e, sent3)
             | (None, sent3) \<Rightarrow>
            (case execute_ignoring db sent3 (ModifyColumn ''stock'' ''VARCHAR(32) NOT NULL'') of
               (Some e, sent4) \<Rightarrow> (Some e, sent4)
             | (None, sent4) \<Rightarrow> execute db sent4 add_key))))"

text \<open>The driver's contract: a statement fails with a \<^verbatim>\<open>mysql.connector.Error\<close> only.\<close>

definition driver_errors_only :: "server \<Rightarrow> bool" where
  "driver_errors_only db = (\<forall>sent q x. db sent q \<noteq> Some (OtherError x))"

text \<open>
  A server that holds a table of the old shape: creation fails with error 1170, and the
  table has no primary key to drop (error 1091).
\<close>

definition old_table :: server where
  "old_table sent q =
     (if q = CreateTable then Some (MySQLError 1170)
      else if q = DropPrimaryKey then Some (MySQLError 1091)
      else None)"

section \<open>Summary.py: text cleaning\<close>

text \<open>\<^verbatim>\<open>s.strip()\<close>\<close>

definition strip :: "string \<Rightarrow> string" where
  "strip s = rev (dropWhile is_space (rev (dropWhile is_space s)))"

text \<open>\<^verbatim>\<open>re.compile(r"\s+").sub(" ", s)\<close>: every maximal run of blanks becomes one space.\<close>

function ws_sub :: "string \<Rightarrow> string" where
  "ws_sub [] = []"
| "ws_sub (c # cs) =
     (if is_space c then CHR '' '' # ws_sub (dropWhile is_space cs) else c # ws_sub cs)"
  by pat_completeness auto
termination
  by (relation "measure length") (auto simp: le_imp_less_Suc length_dropWhile_le)

definition clean_str :: "string \<Rightarrow> string option" where
  "clean_str s =
     (if s = [] then None
      else
        (let t = ws_sub (strip s)
         in Some (if 200000 < int (length t) then take 200000 t else t)))"

text \<open>
  \<open>clean_text\<close>: a false value gives \<open>None\<close>; anything true that is not a string has
  no \<^verbatim>\<open>strip\<close>.
\<close>

fun clean_text :: "json \<Rightarrow> pyerr + string option" where
  "clean_text (JStr s) = Inr (clean_str s)"
| "clean_text v = (if truthy v then Inl AttributeError else Inr None)"


section \<open>Summary.py: enrichment from the paragraph\<close>

text \<open>
  The three patterns are compiled with \<^verbatim>\<open>re.IGNORECASE\<close>.  Their literal parts are
  lower-case letters and spaces, which a character matches when its lower case is the
  letter.  \<^verbatim>\<open>\w\<close> is an alphanumeric character or the underscore, \<^verbatim>\<open>\d\<close> a
  decimal digit.
\<close>

definition to_lower :: "char \<Rightarrow> char" where
  "to_lower c =
     (let n = (of_char c :: nat) in if 65 \<le> n \<and> n \<le> 90 then char_of (n + 32) else c)"

definition is_digit :: "char \<Rightarrow> bool" where
  "is_digit c = (let n = (of_char c :: nat) in 48 \<le> n \<and> n \<le> 57)"

definition is_word :: "char \<Rightarrow> bool" where
  "is_word c =
     (let n = (of_char c :: nat)
      in (48 \<le> n \<and> n \<le> 57) \<or> (65 \<le> n \<and> n \<le> 90) \<or> (97 \<le> n \<and> n \<le> 122) \<or> n = 95 \<or>
         n = 170 \<or> n = 178 \<or> n = 179 \<or> n = 181 \<or> n = 185 \<or> n = 186 \<or>
         (188 \<le> n \<and> n \<le> 190) \<or> (192 \<le> n \<and> n \<le> 214) \<or>
         (216 \<le> n \<and> n \<le> 246) \<or> (248 \<le> n \<and> n \<le> 255))"

text \<open>\<^verbatim>\<open>\b\<close> between the character before a position (if any) and the one after it.\<close>

definition word_boundary :: "char option \<Rightarrow> char option \<Rightarrow> bool" where
  "word_boundary a b =
     ((case a of None \<Rightarrow> False | Some c \<Rightarrow> is_word c) \<noteq>
      (case b of None \<Rightarrow> False | Some c \<Rightarrow> is_word c))"

definition head_opt :: "string \<Rightarrow> char option" where
  "head_opt s = (case s of [] \<Rightarrow> None | c # _ \<Rightarrow> Some c)"

text \<open>A literal matched without regard to case: the rest of the text after it.\<close>

fun ci_prefix :: "string \<Rightarrow> string \<Rightarrow> string option" where
  "ci_prefix [] s = Some s"
| "ci_prefix (p # ps) [] = None"
| "ci_prefix (p # ps) (c # cs) = (if to_lower c = p then ci_prefix ps cs else None)"

text \<open>\<^verbatim>\<open>\bfounded in (\d{4})\b\<close> at one position: group 1.\<close>

definition match_founded :: "char option \<Rightarrow> string \<Rightarrow> string option" where
  "match_founded prev s =
     (if \<not> word_boundary prev (head_opt s) then None
      else
        (case ci_prefix ''founded in '' s of
           None \<Rightarrow> None
         | Some rest \<Rightarrow>
             (let g = take 4 rest
              in if length g = 4 \<and> list_all is_digit g \<and>
                    word_boundary (Some (last g)) (head_opt (drop 4 rest))
                 then Some g else None)))"

text \<open>\<^verbatim>\<open>\bformerly known as ([^.,;]+)\<close> at one position: group 1.\<close>

definition match_former :: "char option \<Rightarrow> string \<Rightarrow> string option" where
  "match_former prev s =
     (if \<not> word_boundary prev (head_opt s) then None
      else
        (case ci_prefix ''formerly known as '' s of
           None \<Rightarrow> None
         | Some rest \<Rightarrow>
             (let g = takeWhile (\<lambda>c. c \<noteq> CHR ''.'' \<and> c \<noteq> CHR '','' \<and> c \<noteq> CHR '';'') rest
              in if g = [] then None else Some g)))"

text \<open>
  \<^verbatim>\<open>\bheadquartered in ([^.]+?)(?:\.|$)\<close> at one position: group 1.  The lazy group is
  the shortest non-empty run without a full stop that is followed by a full stop or by
  \<^verbatim>\<open>$\<close>, which matches at the end of the text and before a line feed that ends it.
\<close>

definition match_hq :: "char option \<Rightarrow> string \<Rightarrow> string option" where
  "match_hq prev s =
     (if \<not> word_boundary prev (head_opt s) then None
      else
        (case ci_prefix ''headquartered in '' s of
           None \<Rightarrow> None
         | Some rest \<Rightarrow>
             (let g = takeWhile (\<lambda>c. c \<noteq> CHR ''.'') rest
              in if g = [] then None
                 else if g = rest \<and> 2 \<le> length rest \<and> last rest = CHR 0x0A
                 then Some (butlast rest)
                 else Some g)))"

text \<open>\<^verbatim>\<open>pattern.search(text)\<close>: the match at the leftmost position that has one.\<close>

fun re_search :: "(char option \<Rightarrow> string \<Rightarrow> string option) \<Rightarrow> char option \<Rightarrow> string \<Rightarrow> string option" where
  "re_search m prev [] = m prev []"
| "re_search m prev (c # cs) =
     (case m prev (c # cs) of Some g \<Rightarrow> Some g | None \<Rightarrow> re_search m (Some c) cs)"

text \<open>\<^verbatim>\<open>int(text)\<close> on decimal digits.\<close>

definition int_of_digits :: "string \<Rightarrow> int" where
  "int_of_digits ds = foldl (\<lambda>acc c. 10 * acc + (int (of_char c) - 48)) 0 ds"

text \<open>\<^verbatim>\<open>s.split(",")\<close> and \<^verbatim>\<open>", ".join(parts)\<close>.\<close>

fun split_on :: "char \<Rightarrow> string \<Rightarrow> string list" where
  "split_on sep [] = [[]]"
| "split_on sep (c # cs) =
     (if c = sep then [] # split_on sep cs
      else (case split_on sep cs of [] \<Rightarrow> [[c]] | p # ps \<Rightarrow> (c # p) # ps))"

fun join :: "string \<Rightarrow> string list \<Rightarrow> string" where
  "join sep [] = []"
| "join sep [p] = p"
| "join sep (p # ps) = p @ sep @ join sep ps"

record enrichment =
  e_founded :: "int option"
  e_former :: "string option"
  e_city :: "string option"
  e_state :: "string option"
  e_country :: "string option"

definition hq_parts :: "string \<Rightarrow> string option \<times> string option \<times> string option" where
  "hq_parts g =
     (let parts = map strip (split_on (CHR '','') (strip g))
      in case parts of
           [] \<Rightarrow> (None, None, None)
         | [a] \<Rightarrow> (Some a, None, None)
         | [a, b] \<Rightarrow> (Some a, Some b, None)
         | a # b # rest \<Rightarrow> (Some a, Some b, Some (join '', '' rest)))"

definition extract_from_summary :: "string option \<Rightarrow> enrichment" where
  "extract_from_summary summary =
     (case summary of
        None \<Rightarrow> \<lparr>e_founded = None, e_former = None, e_city = None, e_state = None, e_country = None\<rparr>
      | Some s \<Rightarrow>
          if s = [] then \<lparr>e_founded = None, e_former = None, e_city = None, e_state = None, e_country = None\<rparr>
          else
            (let founded = map_option int_of_digits (re_search match_founded None s);
                 former = (case re_search match_former None s of None \<Rightarrow> None | Some g \<Rightarrow> clean_str g);
                 (city, state, country) =
                    (case re_search match_hq None s of None \<Rightarrow> (None, None, None) | Some g \<Rightarrow> hq_parts g)
             in \<lparr>e_founded = founded, e_former = former, e_city = city, e_state = state, e_country = country\<rparr>))"


section \<open>Summary.py: the profile normalizer\<close>

text \<open>The clock that \<^verbatim>\<open>datetime.utcnow()\<close> reads, to the second.\<close>

record clock =
  c_year :: nat
  c_month :: nat
  c_day :: nat
  c_hour :: nat
  c_minute :: nat
  c_second :: nat

definition digit_char :: "nat \<Rightarrow> char" where
  "digit_char n = char_of (48 + n mod 10)"

text \<open>The last \<open>w\<close> decimal digits of a number, with leading zeros.\<close>

fun pad_nat :: "nat \<Rightarrow> nat \<Rightarrow> string" where
  "pad_nat 0 n = []"
| "pad_nat (Suc w) n = pad_nat w (n div 10) @ [digit_char n]"

text \<open>\<^verbatim>\<open>strftime("%Y-%m-%d %H:%M:%S")\<close>, for a year of four digits.\<close>

definition strftime :: "clock \<Rightarrow> string" where
  "strftime t =
     pad_nat 4 (c_year t) @ ''-'' @ pad_nat 2 (c_month t) @ ''-'' @ pad_nat 2 (c_day t) @ '' '' @
     pad_nat 2 (c_hour t) @ '':'' @ pad_nat 2 (c_minute t) @ '':'' @ pad_nat 2 (c_second t)"

record profile =
  stock :: json
  yf_name :: "string option"
  long_summary :: "string option"
  sector :: "string option"
  industry :: "string option"
  website :: "string option"
  employees :: "int option"
  city :: "string option"
  state :: "string option"
  country :: "string option"
  currency :: "string option"
  founded_year :: "int option"
  former_name :: "string option"
  updated_at :: string

text \<open>\<^verbatim>\<open>a or b\<close> on cleaned text: \<open>None\<close> and the empty string are false.\<close>

definition sor :: "string option \<Rightarrow> string option \<Rightarrow> string option" where
  "sor a b = (case a of None \<Rightarrow> b | Some s \<Rightarrow> if s = [] then b else Some s)"

text \<open>\<^verbatim>\<open>int(x)\<close> of a finite float rounds towards zero.\<close>

definition trunc :: "real \<Rightarrow> int" where
  "trunc r = (if 0 \<le> r then \<lfloor>r\<rfloor> else \<lceil>r\<rceil>)"

fun employees_of :: "json \<Rightarrow> int option" where
  "employees_of (JStr s) =
     (let ds = filter is_digit s in if ds = [] then None else Some (int_of_digits ds))"
| "employees_of (JInt i) = Some i"
| "employees_of (JBool b) = Some (if b then 1 else 0)"
| "employees_of (JFloat (Finite r)) = Some (trunc r)"
| "employees_of v = None"

text \<open>
  \<^verbatim>\<open>info.get("longBusinessSummary") or obj.get("summary") or
  (obj.get("profile") or {}).get("longBusinessSummary")\<close>
\<close>

definition raw_summary :: "json \<Rightarrow> json \<Rightarrow> pyerr + json" where
  "raw_summary obj info =
     ebind (jget info ''longBusinessSummary'') (\<lambda>a.
       if truthy a then Inr a
       else
         ebind (jget obj ''summary'') (\<lambda>b.
           if truthy b then Inr b
           else
             ebind (jget obj ''profile'') (\<lambda>p.
               jget (jor p (JDict [])) ''longBusinessSummary'')))"

text \<open>\<^verbatim>\<open>obj = root_obj or {}\<close> and \<^verbatim>\<open>info = obj.get("info") or obj\<close>.\<close>

definition info_of :: "json \<Rightarrow> pyerr + json" where
  "info_of root_obj =
     (let obj = jor root_obj (JDict []) in ebind (jget obj ''info'') (\<lambda>i. Inr (jor i obj)))"

definition normalize_summary :: "clock \<Rightarrow> json \<Rightarrow> json \<Rightarrow> pyerr + profile" where
  "normalize_summary now symbol_hint root_obj =
     (let obj = jor root_obj (JDict []) in
      ebind (info_of root_obj) (\<lambda>info.
      ebind (if truthy symbol_hint then Inr symbol_hint else get_or info [''symbol'', ''ticker'']) (\<lambda>stock0.
      ebind (get_or info [''longName'', ''shortName'', ''displayName'', ''name'']) (\<lambda>yf_name0.
      ebind (raw_summary obj info) (\<lambda>long_summary0.
      ebind (get_or info [''sector'', ''sectorDisp'']) (\<lambda>sector0.
      ebind (get_or info [''industry'', ''industryDisp'']) (\<lambda>industry0.
      ebind (get_or info [''website'', ''irWebsite'']) (\<lambda>website0.
      ebind (jget info ''fullTimeEmployees'') (\<lambda>employees0.
      ebind (jget info ''city'') (\<lambda>city0.
      ebind (get_or info [''state'', ''province'']) (\<lambda>state0.
      ebind (jget info ''country'') (\<lambda>country0.
      ebind (get_or info [''currency'', ''financialCurrency'']) (\<lambda>currency0.
      ebind (clean_text yf_name0) (\<lambda>yf_name1.
      ebind (clean_text long_summary0) (\<lambda>long_summary1.
      ebind (clean_text sector0) (\<lambda>sector1.
      ebind (clean_text industry0) (\<lambda>industry1.
      ebind (clean_text website0) (\<lambda>website1.
      ebind (clean_text city0) (\<lambda>city1.
      ebind (clean_text state0) (\<lambda>state1.
      ebind (clean_text country0) (\<lambda>country1.
      ebind (clean_text currency0) (\<lambda>currency1.
        let enr = extract_from_summary long_summary1 in
        Inr \<lparr>stock = stock0, yf_name = yf_name1, long_summary = long_summary1,
             sector = sector1, industry = industry1, website = website1,
             employees = employees_of employees0,
             city = sor city1 (e_city enr), state = sor state1 (e_state enr),
             country = sor country1 (e_country enr), currency = currency1,
             founded_year = e_founded enr, former_name = e_former enr,
             updated_at = strftime now\<rparr>))))))))))))))))))))))"



text \<open>
  A text in which every blank is a single space: no other blank character, and no two
  blanks in a row.
\<close>

fun single_spaced :: "string \<Rightarrow> bool" where
  "single_spaced [] = True"
| "single_spaced [c] = (is_space c \<longrightarrow> c = CHR '' '')"
| "single_spaced (a # b # cs) =
     ((is_space a \<longrightarrow> a = CHR '' '' \<and> \<not> is_space b) \<and> single_spaced (b # cs))"

section \<open>Financilas.py and Summary.py: reading a stored payload\<close>











section \<open>details.py: the JSON sanitizer\<close>





















section \<open>Properties of the statement normalizer\<close>

lemma ebind_Inr_iff: "ebind m f = Inr y \<longleftrightarrow> (\<exists>x. m = Inr x \<and> f x = Inr y)"
  by (cases m) (simp_all add: ebind_def)









lemma digit_of_range: "digit_of c = Some x \<Longrightarrow> 0 \<le> x \<and> x \<le> 9"
  by (auto simp: digit_of_def Let_def split: if_splits)

lemma month_text_range: "month_text s = Some m \<Longrightarrow> 1 \<le> m \<and> m \<le> 12"
  by (induction s rule: month_text.induct)
     (auto split: option.splits if_splits dest: digit_of_range)

lemma mk_date_valid: "mk_date y m d = Some dt \<Longrightarrow> valid_date dt"
  by (auto simp: mk_date_def valid_date_def split: if_splits)

lemma strptime_ymd_valid: "strptime_ymd s = Some d \<Longrightarrow> valid_date d"
  by (induction s rule: strptime_ymd.induct)
     (auto split: option.splits if_splits list.splits dest: mk_date_valid)

lemma parse_date_valid:
  assumes "fiso_ok fiso" and "parse_date fiso s = Some d"
  shows "valid_date d"
  using assms
  by (auto simp: parse_date_def fiso_ok_def split: option.splits dest: strptime_ymd_valid)

lemma quarter_range:
  assumes "1 \<le> month d" and "month d \<le> 12"
  shows "quarter_from_date d \<in> {1, 2, 3, 4}"
proof -
  have "0 \<le> (month d - 1) div 3" "(month d - 1) div 3 \<le> 3"
    using assms by auto
  then show ?thesis
    unfolding quarter_from_date_def by auto
qed

lemma quarter_four_iff:
  assumes "1 \<le> month d" and "month d \<le> 12"
  shows "quarter_from_date d = 4 \<longleftrightarrow> 10 \<le> month d"
  using assms unfolding quarter_from_date_def by auto

lemma metric_rows_member:
  "r \<in> set (metric_rows symbol yfn stype sc fc d p kvs) \<Longrightarrow>
     li_symbol r = symbol \<and> li_stype r = stype \<and> li_date r = d \<and> li_period r = p \<and>
     li_cal_year r = year d \<and> li_metric r \<in> fst ` set kvs \<and> li_metric r \<noteq> []"
  by (induction kvs) (auto split: if_splits)



lemma date_group_member:
  assumes "date_group fiso symbol yfn stype sc fc freq e = Inr rows" and "r \<in> set rows"
  shows "\<exists>d. parse_date fiso (fst e) = Some d \<and> li_date r = d \<and> li_stype r = stype \<and>
             li_symbol r = symbol \<and> li_period r = period_of freq d"
proof (cases "parse_date fiso (fst e)")
  case None
  with assms show ?thesis by (simp add: date_group_def)
next
  case (Some d)
  with assms(1) obtain kvs where
    "rows = metric_rows symbol yfn stype sc fc d (period_of freq d) kvs"
    by (auto simp: date_group_def ebind_Inr_iff)
  with assms(2) Some show ?thesis
    by (auto dest: metric_rows_member)
qed





text \<open>
  Claim C10.  For every date \<open>d\<close> that the key parser returns, \<open>quarter_from_date d\<close>
  is \<open>(month d - 1) div 3 + 1\<close> and lies in \<open>{1, 2, 3, 4}\<close>; for a month in
  \<open>{10, 11, 12}\<close> it is 4, so every row that the quarterly pass emits for such a key
  carries period 4, the value the yearly pass gives.
\<close>

theorem quarter_from_date_parsed:
  assumes "fiso_ok fiso" and "parse_date fiso dt_str = Some d"
  shows "quarter_from_date d = (month d - 1) div 3 + 1 \<and>
         quarter_from_date d \<in> {1, 2, 3, 4} \<and>
         (month d \<in> {10, 11, 12} \<longrightarrow>
            quarter_from_date d = 4 \<and>
            (\<forall>symbol yfn stype sc fc metrics rows.
               date_group fiso symbol yfn stype sc fc ''quarterly'' (dt_str, metrics) = Inr rows
               \<longrightarrow> (\<forall>r \<in> set rows. li_period r = 4 \<and> li_period r = period_of ''yearly'' d)))"
proof -
  from parse_date_valid [OF assms] have m: "1 \<le> month d" "month d \<le> 12"
    by (simp_all add: valid_date_def)
  have q4: "quarter_from_date d = 4" if "month d \<in> {10, 11, 12}"
    using that quarter_four_iff [OF m] by auto
  have rows: "li_period r = 4 \<and> li_period r = period_of ''yearly'' d"
    if "month d \<in> {10, 11, 12}"
      and "date_group fiso symbol yfn stype sc fc ''quarterly'' (dt_str, metrics) = Inr rows"
      and "r \<in> set rows"
    for symbol yfn stype sc fc metrics rows r
    using date_group_member [OF that(2,3)] assms(2) q4 [OF that(1)]
    by (auto simp: period_of_def)
  have a: "quarter_from_date d = (month d - 1) div 3 + 1"
    by (simp add: quarter_from_date_def)
  have b: "quarter_from_date d \<in> {1, 2, 3, 4}"
    by (rule quarter_range [OF m])
  have c: "month d \<in> {10, 11, 12} \<longrightarrow>
            quarter_from_date d = 4 \<and>
            (\<forall>symbol yfn stype sc fc metrics rows.
               date_group fiso symbol yfn stype sc fc ''quarterly'' (dt_str, metrics) = Inr rows
               \<longrightarrow> (\<forall>r \<in> set rows. li_period r = 4 \<and> li_period r = period_of ''yearly'' d))"
    using q4 rows by blast
  show ?thesis
    by (intro conjI a b c)
qed

theorem quarter_from_date_parsed_witness:
  "fiso_ok (\<lambda>s. None) \<and>
   parse_date (\<lambda>s. None) ''2023-11-30 00:00:00'' = Some \<lparr>year = 2023, month = 11, day = 30\<rparr> \<and>
   quarter_from_date \<lparr>year = 2023, month = 11, day = 30\<rparr> = 4 \<and>
   date_group (\<lambda>s. None) (JStr ''ACME'') JNull ''IS'' JNull JNull ''quarterly''
     (''2023-11-30 00:00:00'', JDict [(''NetIncome'', JInt 7)])
   = Inr [\<lparr>li_symbol = JStr ''ACME'', li_yf_name = JNull, li_stype = ''IS'',
           li_metric = ''NetIncome'', li_stockcurrency = JNull, li_financialcurrency = JNull,
           li_cal_year = 2023, li_period = 4, li_val = JInt 7,
           li_date = \<lparr>year = 2023, month = 11, day = 30\<rparr>\<rparr>]"
proof -
  have h1: "fiso_ok (\<lambda>s. None)"
    by (simp add: fiso_ok_def)
  have h2: "parse_date (\<lambda>s. None) ''2023-11-30 00:00:00'' = Some \<lparr>year = 2023, month = 11, day = 30\<rparr>"
    by code_simp
  have h3: "date_group (\<lambda>s. None) (JStr ''ACME'') JNull ''IS'' JNull JNull ''quarterly''
     (''2023-11-30 00:00:00'', JDict [(''NetIncome'', JInt 7)])
   = Inr [\<lparr>li_symbol = JStr ''ACME'', li_yf_name = JNull, li_stype = ''IS'',
           li_metric = ''NetIncome'', li_stockcurrency = JNull, li_financialcurrency = JNull,
           li_cal_year = 2023, li_period = 4, li_val = JInt 7,
           li_date = \<lparr>year = 2023, month = 11, day = 30\<rparr>\<rparr>]"
    by code_simp
  from quarter_from_date_parsed [OF h1 h2] have "quarter_from_date \<lparr>year = 2023, month = 11, day = 30\<rparr> = 4"
    by simp
  with h1 h2 h3 show ?thesis by simp
qed





















section \<open>Properties of the profile normalizer\<close>

lemma ws_sub_Nil_iff: "ws_sub s = [] \<longleftrightarrow> s = []"
  by (cases s) simp_all

lemma hd_ws_sub: "s \<noteq> [] \<Longrightarrow> \<not> is_space (hd s) \<Longrightarrow> hd (ws_sub s) = hd s"
  by (cases s) simp_all

lemma dropWhile_hd_not: "dropWhile P xs \<noteq> [] \<Longrightarrow> \<not> P (hd (dropWhile P xs))"
  by (rule hd_dropWhile)

lemma dropWhile_all_iff: "(\<forall>x \<in> set (dropWhile P xs). P x) \<longleftrightarrow> dropWhile P xs = []"
proof
  assume all: "\<forall>x \<in> set (dropWhile P xs). P x"
  show "dropWhile P xs = []"
  proof (rule ccontr)
    assume ne: "dropWhile P xs \<noteq> []"
    then have "hd (dropWhile P xs) \<in> set (dropWhile P xs)" by simp
    with all dropWhile_hd_not [OF ne] show False by blast
  qed
next
  assume "dropWhile P xs = []"
  then show "\<forall>x \<in> set (dropWhile P xs). P x"
    by (simp del: dropWhile_eq_Nil_conv)
qed

lemma single_spaced_Cons:
  "single_spaced (a # t) \<longleftrightarrow>
     (is_space a \<longrightarrow> a = CHR '' '' \<and> (t \<noteq> [] \<longrightarrow> \<not> is_space (hd t))) \<and> single_spaced t"
  by (cases t) auto

lemma single_spaced_ws_sub: "single_spaced (ws_sub s)"
proof (induction s rule: ws_sub.induct)
  case 1
  then show ?case by simp
next
  case (2 c cs)
  show ?case
  proof (cases "is_space c")
    case True
    let ?r = "dropWhile is_space cs"
    have "ws_sub ?r \<noteq> [] \<longrightarrow> \<not> is_space (hd (ws_sub ?r))"
      using hd_ws_sub [of ?r] dropWhile_hd_not [of is_space cs]
      by (auto simp: ws_sub_Nil_iff)
    with True 2 show ?thesis
      by (simp add: single_spaced_Cons)
  next
    case False
    with 2 show ?thesis
      by (simp add: single_spaced_Cons)
  qed
qed

lemma single_spaced_take: "single_spaced t \<Longrightarrow> single_spaced (take n t)"
proof (induction t arbitrary: n)
  case Nil
  then show ?case by simp
next
  case (Cons a t)
  show ?case
  proof (cases n)
    case 0
    then show ?thesis by simp
  next
    case (Suc m)
    have "take m t \<noteq> [] \<Longrightarrow> hd (take m t) = hd t"
      by (cases t; cases m) simp_all
    moreover have "take m t \<noteq> [] \<Longrightarrow> t \<noteq> []"
      by auto
    ultimately show ?thesis
      using Cons Suc by (auto simp: single_spaced_Cons)
  qed
qed

lemma strip_Nil_iff: "strip s = [] \<longleftrightarrow> (\<forall>c \<in> set s. is_space c)"
proof -
  have "strip s = [] \<longleftrightarrow> (\<forall>x \<in> set (dropWhile is_space s). is_space x)"
    by (simp add: strip_def dropWhile_eq_Nil_conv)
  also have "\<dots> \<longleftrightarrow> dropWhile is_space s = []"
    by (rule dropWhile_all_iff)
  also have "\<dots> \<longleftrightarrow> (\<forall>c \<in> set s. is_space c)"
    by (simp add: dropWhile_eq_Nil_conv)
  finally show ?thesis .
qed

lemma strip_last: "strip s \<noteq> [] \<Longrightarrow> \<not> is_space (last (strip s))"
proof -
  let ?v = "dropWhile is_space (rev (dropWhile is_space s))"
  assume "strip s \<noteq> []"
  then have ne: "?v \<noteq> []" by (simp add: strip_def)
  then have "last (strip s) = hd ?v"
    by (simp add: strip_def last_rev)
  with dropWhile_hd_not [OF ne] show ?thesis by simp
qed

lemma rev_dropWhile_rev_prefix: "\<exists>r. u = rev (dropWhile P (rev u)) @ r"
proof -
  have "rev (dropWhile P (rev u)) @ rev (takeWhile P (rev u)) =
        rev (takeWhile P (rev u) @ dropWhile P (rev u))"
    by (simp only: rev_append)
  also have "\<dots> = u" by simp
  finally show ?thesis by metis
qed

lemma strip_hd: "strip s \<noteq> [] \<Longrightarrow> \<not> is_space (hd (strip s))"
proof -
  assume ne: "strip s \<noteq> []"
  let ?u = "dropWhile is_space s"
  obtain r where u: "?u = strip s @ r"
    unfolding strip_def using rev_dropWhile_rev_prefix by blast
  with ne have "?u \<noteq> []" "hd ?u = hd (strip s)"
    by auto
  then show ?thesis
    using dropWhile_hd_not [of is_space s] by simp
qed

lemma last_dropWhile: "dropWhile P xs \<noteq> [] \<Longrightarrow> last (dropWhile P xs) = last xs"
  by (induction xs) (auto split: if_splits)

lemma last_ws_sub: "s \<noteq> [] \<Longrightarrow> \<not> is_space (last s) \<Longrightarrow> last (ws_sub s) = last s"
proof (induction s rule: ws_sub.induct)
  case 1
  then show ?case by simp
next
  case (2 c cs)
  show ?case
  proof (cases "is_space c")
    case True
    with "2.prems" have cs: "cs \<noteq> []" "\<not> is_space (last cs)"
      by (auto split: if_splits)
    then have ne: "dropWhile is_space cs \<noteq> []"
      by (metis dropWhile_eq_Nil_conv last_in_set)
    with "2.IH"(1) [OF True] cs have "last (ws_sub (dropWhile is_space cs)) = last cs"
      by (simp add: last_dropWhile)
    moreover have "ws_sub (dropWhile is_space cs) \<noteq> []"
      using ne by (simp add: ws_sub_Nil_iff)
    moreover have "ws_sub (c # cs) = CHR '' '' # ws_sub (dropWhile is_space cs)"
      using True by simp
    ultimately show ?thesis
      using cs(1) by simp
  next
    case False
    show ?thesis
    proof (cases "cs = []")
      case True
      with False show ?thesis by simp
    next
      case ne: False
      with "2.prems" have "\<not> is_space (last cs)" by simp
      with "2.IH"(2) [OF False ne] False ne show ?thesis
        by (simp add: ws_sub_Nil_iff)
    qed
  qed
qed

text \<open>A text of three spaces is not empty, so it is cleaned: the result is the empty string.\<close>

theorem clean_text_whitespace_only_counterexample:
  "clean_text (JStr ''   '') = Inr (Some [])"
  by code_simp



text \<open>
  Claim C6, as the code has it.  For every string input, \<open>clean_text\<close> returns null
  exactly when the input is empty; otherwise it strips leading and trailing blanks, replaces
  every run of blanks by one space and keeps the first 200,000 characters.  The result has at
  most 200,000 characters, every blank in it is a single space, it does not start with a
  blank, it does not end with one unless it was cut, and it is the empty string exactly when
  the input consists of blanks only.
\<close>

theorem clean_text_string:
  "clean_text (JStr s) = Inr (if s = [] then None else Some (take 200000 (ws_sub (strip s)))) \<and>
   (\<forall>t. clean_text (JStr s) = Inr (Some t) \<longrightarrow>
      length t \<le> 200000 \<and> single_spaced t \<and>
      (t \<noteq> [] \<longrightarrow> \<not> is_space (hd t)) \<and>
      (t \<noteq> [] \<and> length (ws_sub (strip s)) \<le> 200000 \<longrightarrow> \<not> is_space (last t)) \<and>
      (t = [] \<longleftrightarrow> (\<forall>c \<in> set s. is_space c)))"
proof -
  let ?w = "ws_sub (strip s)"
  have eq: "clean_text (JStr s) = Inr (if s = [] then None else Some (take 200000 ?w))"
    by (simp add: clean_str_def Let_def)
  have props: "length t \<le> 200000 \<and> single_spaced t \<and>
      (t \<noteq> [] \<longrightarrow> \<not> is_space (hd t)) \<and>
      (t \<noteq> [] \<and> length ?w \<le> 200000 \<longrightarrow> \<not> is_space (last t)) \<and>
      (t = [] \<longleftrightarrow> (\<forall>c \<in> set s. is_space c))"
    if "clean_text (JStr s) = Inr (Some t)" for t
  proof -
    from that eq have s: "s \<noteq> []" and t: "t = take 200000 ?w"
      by (auto split: if_splits)
    have a: "length t \<le> 200000"
      using t by simp
    have b: "single_spaced t"
      unfolding t by (rule single_spaced_take [OF single_spaced_ws_sub])
    have emp: "t = [] \<longleftrightarrow> strip s = []"
      using t by (simp add: ws_sub_Nil_iff)
    have c: "\<not> is_space (hd t)" if "t \<noteq> []"
    proof -
      from that emp have ne: "strip s \<noteq> []" by simp
      have "hd t = hd ?w"
        using t that by (cases ?w) auto
      also have "\<dots> = hd (strip s)"
        using ne strip_hd by (simp add: hd_ws_sub)
      finally show ?thesis
        using strip_hd [OF ne] by simp
    qed
    have d: "\<not> is_space (last t)" if "t \<noteq> []" "length ?w \<le> 200000"
    proof -
      from that emp have ne: "strip s \<noteq> []" by simp
      have "t = ?w"
        using t that(2) by simp
      then have "last t = last (strip s)"
        using ne strip_last by (simp add: last_ws_sub)
      then show ?thesis
        using strip_last [OF ne] by simp
    qed
    from a b c d emp show ?thesis
      by (simp add: strip_Nil_iff)
  qed
  from eq props show ?thesis
    by blast
qed

theorem clean_text_string_witness:
  "clean_text (JStr ''  Acme   Corp '') = Inr (Some ''Acme Corp'') \<and>
   length ''Acme Corp'' \<le> 200000 \<and> single_spaced ''Acme Corp''"
proof -
  have e: "clean_text (JStr ''  Acme   Corp '') = Inr (Some ''Acme Corp'')"
    by code_simp
  from clean_text_string [of "''  Acme   Corp ''"]
  have "\<forall>t. clean_text (JStr ''  Acme   Corp '') = Inr (Some t) \<longrightarrow>
          length t \<le> 200000 \<and> single_spaced t"
    by blast
  with e have "length ''Acme Corp'' \<le> 200000 \<and> single_spaced ''Acme Corp''"
    by blast
  with e show ?thesis
    by (intro conjI) blast+
qed

lemma map_sum_ebind: "map_sum id g (ebind m f) = ebind m (\<lambda>x. map_sum id g (f x))"
  by (cases m) (simp_all add: ebind_def)

text \<open>Two runs on the same hint and payload, one second apart, give different records.\<close>

theorem normalize_summary_clock_counterexample:
  "normalize_summary \<lparr>c_year = 2024, c_month = 1, c_day = 2, c_hour = 3, c_minute = 4, c_second = 5\<rparr>
     (JStr ''ACME'') (JDict [])
   \<noteq> normalize_summary \<lparr>c_year = 2024, c_month = 1, c_day = 2, c_hour = 3, c_minute = 4, c_second = 6\<rparr>
     (JStr ''ACME'') (JDict [])"
  by code_simp

text \<open>
  Claim C3, as the code has it.  \<open>normalize_financials\<close> reads nothing but its arguments,
  so two runs on the same payload give the same sequence.  Two runs of
  \<open>normalize_summary\<close> on the same symbol hint and payload fail alike or give records
  that agree in every field but \<open>updated_at\<close>, which is the time each run reads from the
  clock.
\<close>

theorem normalize_twice:
  "normalize_financials fiso symbol payload = normalize_financials fiso symbol payload \<and>
   normalize_summary t2 symbol_hint payload =
     map_sum id (\<lambda>r. r\<lparr>updated_at := strftime t2\<rparr>) (normalize_summary t1 symbol_hint payload)"
  by (simp add: normalize_summary_def Let_def map_sum_ebind)

lemma sor_Some: "c \<noteq> [] \<Longrightarrow> sor (Some c) b = Some c"
  by (simp add: sor_def)

lemma normalize_summary_Inr:
  assumes "normalize_summary now symbol_hint root_obj = Inr rec"
  shows "\<exists>info stock0 city0 state0 country0 city1 state1 country1 long_summary1.
           info_of root_obj = Inr info \<and>
           (if truthy symbol_hint then Inr symbol_hint else get_or info [''symbol'', ''ticker'']) = Inr stock0 \<and>
           jget info ''city'' = Inr city0 \<and>
           get_or info [''state'', ''province''] = Inr state0 \<and>
           jget info ''country'' = Inr country0 \<and>
           clean_text city0 = Inr city1 \<and> clean_text state0 = Inr state1 \<and>
           clean_text country0 = Inr country1 \<and>
           long_summary rec = long_summary1 \<and>
           stock rec = stock0 \<and>
           city rec = sor city1 (e_city (extract_from_summary long_summary1)) \<and>
           state rec = sor state1 (e_state (extract_from_summary long_summary1)) \<and>
           country rec = sor country1 (e_country (extract_from_summary long_summary1)) \<and>
           updated_at rec = strftime now"
proof -
  from assms obtain info stock0 yf0 ls0 se0 in0 we0 em0 city0 state0 country0 cu0
      yf1 long_summary1 se1 in1 we1 city1 state1 country1 cu1 where
    h: "info_of root_obj = Inr info"
      "(if truthy symbol_hint then Inr symbol_hint else get_or info [''symbol'', ''ticker'']) = Inr stock0"
      "jget info ''city'' = Inr city0"
      "get_or info [''state'', ''province''] = Inr state0"
      "jget info ''country'' = Inr country0"
      "clean_text city0 = Inr city1" "clean_text state0 = Inr state1"
      "clean_text country0 = Inr country1" and
    r: "Inr \<lparr>stock = stock0, yf_name = yf1, long_summary = long_summary1, sector = se1,
             industry = in1, website = we1, employees = employees_of em0,
             city = sor city1 (e_city (extract_from_summary long_summary1)),
             state = sor state1 (e_state (extract_from_summary long_summary1)),
             country = sor country1 (e_country (extract_from_summary long_summary1)),
             currency = cu1,
             founded_year = e_founded (extract_from_summary long_summary1),
             former_name = e_former (extract_from_summary long_summary1),
             updated_at = strftime now\<rparr> = (Inr rec :: pyerr + profile)"
    unfolding normalize_summary_def Let_def ebind_Inr_iff
    by (elim exE conjE) (rule that)
  from r have
    "long_summary rec = long_summary1" "stock rec = stock0"
    "city rec = sor city1 (e_city (extract_from_summary long_summary1))"
    "state rec = sor state1 (e_state (extract_from_summary long_summary1))"
    "country rec = sor country1 (e_country (extract_from_summary long_summary1))"
    "updated_at rec = strftime now"
    by auto
  with h show ?thesis
    by blast
qed


text \<open>
  Claim C9.  Whenever \<open>normalize_summary\<close> returns a record and the structured
  \<open>city\<close> of the payload's \<open>info\<close> is a non-empty text after cleaning, the city of the
  record is that cleaned text, whatever the headquarters sentence of the long summary says;
  likewise for the state (\<open>state\<close>, else \<open>province\<close>) and the country.
\<close>

theorem normalize_summary_structured_location:
  assumes "normalize_summary now symbol_hint root_obj = Inr rec"
    and "info_of root_obj = Inr info"
  shows "(\<forall>v c. jget info ''city'' = Inr v \<and> clean_text v = Inr (Some c) \<and> c \<noteq> []
            \<longrightarrow> city rec = Some c) \<and>
         (\<forall>v c. get_or info [''state'', ''province''] = Inr v \<and> clean_text v = Inr (Some c) \<and> c \<noteq> []
            \<longrightarrow> state rec = Some c) \<and>
         (\<forall>v c. jget info ''country'' = Inr v \<and> clean_text v = Inr (Some c) \<and> c \<noteq> []
            \<longrightarrow> country rec = Some c)"
proof -
  from normalize_summary_Inr [OF assms(1)] assms(2)
  obtain city0 state0 country0 city1 state1 country1 ls where
    h: "jget info ''city'' = Inr city0"
      "get_or info [''state'', ''province''] = Inr state0"
      "jget info ''country'' = Inr country0"
      "clean_text city0 = Inr city1" "clean_text state0 = Inr state1"
      "clean_text country0 = Inr country1"
      "city rec = sor city1 (e_city (extract_from_summary ls))"
      "state rec = sor state1 (e_state (extract_from_summary ls))"
      "country rec = sor country1 (e_country (extract_from_summary ls))"
    by auto
  have a: "city rec = Some c"
    if "jget info ''city'' = Inr v" "clean_text v = Inr (Some c)" "c \<noteq> []" for v c
  proof -
    from that h(1,4,7) have "city rec = sor (Some c) (e_city (extract_from_summary ls))"
      by simp
    with that(3) show ?thesis
      by (simp add: sor_Some)
  qed
  have b: "state rec = Some c"
    if "get_or info [''state'', ''province''] = Inr v" "clean_text v = Inr (Some c)" "c \<noteq> []" for v c
  proof -
    from that h(2,5,8) have "state rec = sor (Some c) (e_state (extract_from_summary ls))"
      by simp
    with that(3) show ?thesis
      by (simp add: sor_Some)
  qed
  have c: "country rec = Some c"
    if "jget info ''country'' = Inr v" "clean_text v = Inr (Some c)" "c \<noteq> []" for v c
  proof -
    from that h(3,6,9) have "country rec = sor (Some c) (e_country (extract_from_summary ls))"
      by simp
    with that(3) show ?thesis
      by (simp add: sor_Some)
  qed
  from a b c show ?thesis
    by blast
qed

theorem normalize_summary_structured_location_witness:
  "normalize_summary \<lparr>c_year = 2024, c_month = 1, c_day = 2, c_hour = 3, c_minute = 4, c_second = 5\<rparr>
     (JStr ''ACME'')
     (JDict [(''info'', JDict
        [(''city'', JStr ''Dallas''), (''province'', JStr ''TX''), (''country'', JStr ''United States''),
         (''longBusinessSummary'', JStr ''Acme is headquartered in Austin, Texas, USA.'')])])
   = Inr \<lparr>stock = JStr ''ACME'', yf_name = None,
          long_summary = Some ''Acme is headquartered in Austin, Texas, USA.'',
          sector = None, industry = None, website = None, employees = None,
          city = Some ''Dallas'', state = Some ''TX'', country = Some ''United States'',
          currency = None, founded_year = None, former_name = None,
          updated_at = ''2024-01-02 03:04:05''\<rparr> \<and>
   extract_from_summary (Some ''Acme is headquartered in Austin, Texas, USA.'')
   = \<lparr>e_founded = None, e_former = None, e_city = Some ''Austin'', e_state = Some ''Texas'',
      e_country = Some ''USA''\<rparr> \<and>
   city \<lparr>stock = JStr ''ACME'', yf_name = None,
          long_summary = Some ''Acme is headquartered in Austin, Texas, USA.'',
          sector = None, industry = None, website = None, employees = None,
          city = Some ''Dallas'', state = Some ''TX'', country = Some ''United States'',
          currency = None, founded_year = None, former_name = None,
          updated_at = ''2024-01-02 03:04:05''\<rparr> = Some ''Dallas''"
proof -
  define info where "info = JDict
        [(''city'', JStr ''Dallas''), (''province'', JStr ''TX''), (''country'', JStr ''United States''),
         (''longBusinessSummary'', JStr ''Acme is headquartered in Austin, Texas, USA.'')]"
  define rec where "rec = \<lparr>stock = JStr ''ACME'', yf_name = None,
          long_summary = Some ''Acme is headquartered in Austin, Texas, USA.'',
          sector = None, industry = None, website = None, employees = None,
          city = Some ''Dallas'', state = Some ''TX'', country = Some ''United States'',
          currency = None, founded_year = None, former_name = None,
          updated_at = ''2024-01-02 03:04:05''\<rparr>"
  have h1: "normalize_summary \<lparr>c_year = 2024, c_month = 1, c_day = 2, c_hour = 3, c_minute = 4, c_second = 5\<rparr>
     (JStr ''ACME'') (JDict [(''info'', info)]) = Inr rec"
    unfolding info_def rec_def by code_simp
  have h2: "info_of (JDict [(''info'', info)]) = Inr info"
    unfolding info_def by code_simp
  have h3: "jget info ''city'' = Inr (JStr ''Dallas'')"
    unfolding info_def by code_simp
  have h4: "clean_text (JStr ''Dallas'') = Inr (Some ''Dallas'')"
    by code_simp
  have h5: "extract_from_summary (Some ''Acme is headquartered in Austin, Texas, USA.'')
   = \<lparr>e_founded = None, e_former = None, e_city = Some ''Austin'', e_state = Some ''Texas'',
      e_country = Some ''USA''\<rparr>"
    by code_simp
  from normalize_summary_structured_location [OF h1 h2] h3 h4
  have "city rec = Some ''Dallas''"
    by blast
  then show ?thesis
    using h1 h5 unfolding info_def rec_def by (intro conjI)
qed




section \<open>Properties of the schema reconciler\<close>

lemma execute_ignoring_driver:
  assumes "driver_errors_only db"
  shows "execute_ignoring db sent q = (None, sent @ [q])"
proof (cases "db sent q")
  case None
  then show ?thesis
    by (simp add: execute_ignoring_def execute_def)
next
  case (Some e)
  with assms obtain n where "e = MySQLError n"
    by (cases e) (auto simp: driver_errors_only_def)
  with Some show ?thesis
    by (simp add: execute_ignoring_def execute_def)
qed

text \<open>
  Claim C8.  \<open>ensure_financials_table\<close> sends the creation statement.  When that
  succeeds it returns; when it fails with anything but error 1170 of the driver, that same
  exception leaves the function and nothing else is sent.  On error 1170 it sends, in this
  order, the drop of the primary key, the change of \<open>metric\<close>, the change of
  \<open>stock\<close> (a failure of any of the three is ignored) and then the composite primary
  key (stock, statement_type, metric, date), whose outcome is the outcome of the function.
  Statements fail with the driver's error class.
\<close>

theorem ensure_financials_table_repair:
  "(db sent CreateTable = None \<longrightarrow>
      ensure_financials_table db sent = (None, sent @ [CreateTable])) \<and>
   (\<forall>e. db sent CreateTable = Some e \<and> e \<noteq> MySQLError 1170 \<longrightarrow>
      ensure_financials_table db sent = (Some e, sent @ [CreateTable])) \<and>
   (db sent CreateTable = Some (MySQLError 1170) \<and> driver_errors_only db \<longrightarrow>
      ensure_financials_table db sent =
        (db (sent @ [CreateTable, DropPrimaryKey,
                     ModifyColumn ''metric'' ''VARCHAR(191) NOT NULL'',
                     ModifyColumn ''stock'' ''VARCHAR(32) NOT NULL''])
            (AddPrimaryKey [''stock'', ''statement_type'', ''metric'', ''date'']),
         sent @ [CreateTable, DropPrimaryKey,
                 ModifyColumn ''metric'' ''VARCHAR(191) NOT NULL'',
                 ModifyColumn ''stock'' ''VARCHAR(32) NOT NULL'',
                 AddPrimaryKey [''stock'', ''statement_type'', ''metric'', ''date'']]))"
proof (intro conjI impI allI)
  assume "db sent CreateTable = None"
  then show "ensure_financials_table db sent = (None, sent @ [CreateTable])"
    by (simp add: ensure_financials_table_def execute_def)
next
  fix e
  assume "db sent CreateTable = Some e \<and> e \<noteq> MySQLError 1170"
  then show "ensure_financials_table db sent = (Some e, sent @ [CreateTable])"
    by (cases e) (simp_all add: ensure_financials_table_def execute_def)
next
  assume a: "db sent CreateTable = Some (MySQLError 1170) \<and> driver_errors_only db"
  then have d: "driver_errors_only db" by simp
  show "ensure_financials_table db sent =
        (db (sent @ [CreateTable, DropPrimaryKey,
                     ModifyColumn ''metric'' ''VARCHAR(191) NOT NULL'',
                     ModifyColumn ''stock'' ''VARCHAR(32) NOT NULL''])
            (AddPrimaryKey [''stock'', ''statement_type'', ''metric'', ''date'']),
         sent @ [CreateTable, DropPrimaryKey,
                 ModifyColumn ''metric'' ''VARCHAR(191) NOT NULL'',
                 ModifyColumn ''stock'' ''VARCHAR(32) NOT NULL'',
                 AddPrimaryKey [''stock'', ''statement_type'', ''metric'', ''date'']])"
    using a
    by (simp add: ensure_financials_table_def execute_def execute_ignoring_driver [OF d]
        add_key_def)
qed

theorem ensure_financials_table_repair_witness:
  "old_table [] CreateTable = Some (MySQLError 1170) \<and> driver_errors_only old_table \<and>
   ensure_financials_table old_table [] =
     (None,
      [CreateTable, DropPrimaryKey,
       ModifyColumn ''metric'' ''VARCHAR(191) NOT NULL'',
       ModifyColumn ''stock'' ''VARCHAR(32) NOT NULL'',
       AddPrimaryKey [''stock'', ''statement_type'', ''metric'', ''date'']])"
proof -
  have h1: "old_table [] CreateTable = Some (MySQLError 1170)"
    by (simp add: old_table_def)
  have h2: "driver_errors_only old_table"
    by (simp add: driver_errors_only_def old_table_def)
  have h3: "old_table ([] @ [CreateTable, DropPrimaryKey,
                     ModifyColumn ''metric'' ''VARCHAR(191) NOT NULL'',
                     ModifyColumn ''stock'' ''VARCHAR(32) NOT NULL''])
            (AddPrimaryKey [''stock'', ''statement_type'', ''metric'', ''date'']) = None"
    by (simp add: old_table_def)
  from ensure_financials_table_repair [of old_table "[]"] h1 h2
  have "ensure_financials_table old_table [] =
        (old_table ([] @ [CreateTable, DropPrimaryKey,
                     ModifyColumn ''metric'' ''VARCHAR(191) NOT NULL'',
                     ModifyColumn ''stock'' ''VARCHAR(32) NOT NULL''])
            (AddPrimaryKey [''stock'', ''statement_type'', ''metric'', ''date'']),
         [] @ [CreateTable, DropPrimaryKey,
                 ModifyColumn ''metric'' ''VARCHAR(191) NOT NULL'',
                 ModifyColumn ''stock'' ''VARCHAR(32) NOT NULL'',
                 AddPrimaryKey [''stock'', ''statement_type'', ''metric'', ''date'']])"
    by blast
  with h3 have "ensure_financials_table old_table [] =
     (None,
      [CreateTable, DropPrimaryKey,
       ModifyColumn ''metric'' ''VARCHAR(191) NOT NULL'',
       ModifyColumn ''stock'' ''VARCHAR(32) NOT NULL'',
       AddPrimaryKey [''stock'', ''statement_type'', ''metric'', ''date'']])"
    by simp
  with h1 h2 show ?thesis
    by (intro conjI)
qed

section \<open>Properties of reading a stored payload\<close>






section \<open>Properties of the JSON sanitizer\<close>
















end
